theory Spec2Isabelle
  imports Main "HOL-Library.Sublist" "HOL-Library.Word"
begin

section \<open>Python values and exceptions\<close>

text \<open>
  The values \<^verbatim>\<open>zone-transfer.py\<close> handles are dynamically typed: a transfer record is a
  tuple of three strings (library path) or a string (one output line of a tool), and the
  organisation text is whatever the JSON document holds under \<^verbatim>\<open>org\<close>. One datatype
  covers them. A float keeps its literal text; nothing in the program inspects it. A
  dictionary is the list of its items, its keys distinct. Strings are lists of 8-bit
  characters.
\<close>

datatype pyval =
    PyNone
  | PyBool bool
  | PyInt int
  | PyFloat string
  | PyStr string
  | PyList "pyval list"
  | PyTuple "pyval list"
  | PyDict "(string \<times> pyval) list"

text \<open>
  The exception classes the program names in its \<^verbatim>\<open>except\<close> clauses and some its
  collaborators document. The table is open: \<open>OtherException\<close> is any further class, given
  by its name and the classes it is declared to derive from, so that a subclass of a named
  class which the table does not list (\<^verbatim>\<open>dns.message.ShortHeader\<close> under
  \<^verbatim>\<open>FormError\<close>, \<^verbatim>\<open>UnicodeError\<close> under \<^verbatim>\<open>ValueError\<close>) is a value of
  the type. Asynchronous \<^verbatim>\<open>BaseException\<close>s (keyboard interrupt, system exit) are
  outside the model, so \<^verbatim>\<open>except Exception\<close> catches every exception here.
  \<open>DNSTimeout\<close> is \<^verbatim>\<open>dns.exception.Timeout\<close>.
\<close>

datatype exc_class =
    Exception
  | DNSException
  | FormError
  | DNSTimeout
  | NXDOMAIN
  | NoAnswer
  | NoNameservers
  | LifetimeTimeout
  | TransferError
  | BadResponse
  | UnexpectedSource
  | OSError
  | ConnectionError
  | ConnectionResetError
  | ConnectionRefusedError
  | FileNotFoundError
  | ValueError
  | JSONDecodeError
  | RequestException
  | AttributeError
  | IndexError
  | OtherException string "exc_class list"

text \<open>
  The proper ancestors of a class, as the libraries declare them; those of a further class
  are its bases and their ancestors.
\<close>

fun superclasses :: "exc_class \<Rightarrow> exc_class list" where
  "superclasses Exception = []"
| "superclasses DNSException = [Exception]"
| "superclasses FormError = [DNSException, Exception]"
| "superclasses DNSTimeout = [DNSException, Exception]"
| "superclasses NXDOMAIN = [DNSException, Exception]"
| "superclasses NoAnswer = [DNSException, Exception]"
| "superclasses NoNameservers = [DNSException, Exception]"
| "superclasses LifetimeTimeout = [DNSTimeout, DNSException, Exception]"
| "superclasses TransferError = [DNSException, Exception]"
| "superclasses BadResponse = [FormError, DNSException, Exception]"
| "superclasses UnexpectedSource = [DNSException, Exception]"
| "superclasses OSError = [Exception]"
| "superclasses ConnectionError = [OSError, Exception]"
| "superclasses ConnectionResetError = [ConnectionError, OSError, Exception]"
| "superclasses ConnectionRefusedError = [ConnectionError, OSError, Exception]"
| "superclasses FileNotFoundError = [OSError, Exception]"
| "superclasses ValueError = [Exception]"
| "superclasses JSONDecodeError = [ValueError, RequestException, OSError, Exception]"
| "superclasses RequestException = [OSError, Exception]"
| "superclasses AttributeError = [Exception]"
| "superclasses IndexError = [Exception]"
| "superclasses (OtherException n bases) = concat (map (\<lambda>b. b # superclasses b) bases)"

text \<open>An exception: its class and the text \<^verbatim>\<open>str(e)\<close> gives.\<close>

datatype exc = Exc (exc_cls: exc_class) (exc_msg: string)

text \<open>\<^verbatim>\<open>except (C1, ..., Cn)\<close> matches an exception of one of the classes or of a subclass.\<close>

definition isinstance :: "exc \<Rightarrow> exc_class list \<Rightarrow> bool" where
  "isinstance e classes =
     list_ex (\<lambda>c. c = exc_cls e \<or> List.member (superclasses (exc_cls e)) c) classes"

section \<open>String operations\<close>

text \<open>\<^verbatim>\<open>needle in haystack\<close> on strings: the needle starts at some position.\<close>

fun contains :: "string \<Rightarrow> string \<Rightarrow> bool" where
  "contains needle [] = (needle = [])"
| "contains needle (c # cs) = (prefix needle (c # cs) \<or> contains needle cs)"

text \<open>
  The line boundaries of \<^verbatim>\<open>str.splitlines\<close> among the 8-bit characters: LF, VT, FF, CR,
  FS, GS, RS and NEL (U+2028 and U+2029 are beyond the character type).
\<close>

definition linebreak :: "char \<Rightarrow> bool" where
  "linebreak c = List.member [CHR 0x0A, CHR 0x0B, CHR 0x0C, CHR 0x0D, CHR 0x1C, CHR 0x1D, CHR 0x1E, CHR 0x85] c"

text \<open>
  \<^verbatim>\<open>splitlines\<close>: \<open>cur\<close> is the line being read. CR LF is one boundary; a last line
  without a boundary is kept; the empty string has no lines.
\<close>

fun splitlines_from :: "string \<Rightarrow> string \<Rightarrow> string list" where
  "splitlines_from cur [] = (if cur = [] then [] else [cur])"
| "splitlines_from cur [c] =
     (if linebreak c then [cur] else [cur @ [c]])"
| "splitlines_from cur (c # d # cs) =
     (if c = CHR 0x0D \<and> d = CHR 0x0A then cur # splitlines_from [] cs
      else if linebreak c then cur # splitlines_from [] (d # cs)
      else splitlines_from (cur @ [c]) (d # cs))"

definition splitlines :: "string \<Rightarrow> string list" where
  "splitlines text = splitlines_from [] text"

text \<open>Decimal text of a natural number, for the octets of an address.\<close>

fun decimal :: "nat \<Rightarrow> string" where
  "decimal n =
     (if n < 10 then [''0123456789'' ! n]
      else decimal (n div 10) @ [''0123456789'' ! (n mod 10)])"

declare decimal.simps [simp del]

section \<open>The outside world\<close>

text \<open>
  An IPv4 address is four octets; \<^verbatim>\<open>str\<close> of an A record is its dotted quad.
\<close>

type_synonym ipv4 = "8 word \<times> 8 word \<times> 8 word \<times> 8 word"

fun str_A :: "ipv4 \<Rightarrow> string" where
  "str_A (a, b, c, d) =
     decimal (unat a) @ ''.'' @ decimal (unat b) @ ''.'' @ decimal (unat c) @ ''.'' @ decimal (unat d)"

text \<open>
  A transferred zone as the loops of \<open>zone_transfer_dnspython\<close> read it: for every node
  its owner name's text and its rdatasets, each the text of its type and the texts of its
  rdata.
\<close>

type_synonym zone = "(string \<times> (string \<times> string list) list) list"

text \<open>What \<^verbatim>\<open>subprocess.run(..., capture_output=True, text=True)\<close> returns.\<close>

record completed_process =
  returncode :: int
  stdout :: string
  stderr :: string

text \<open>
  The collaborators are opaque. Each is a function of the world's state \<open>'w\<close>, giving its
  answer (\<open>Inl\<close>: the exception it raises) and the next state, so that two calls with
  the same arguments may differ. An HTTP response is what its \<^verbatim>\<open>json()\<close> does: raise, or
  give the decoded document.
\<close>

record 'w env =
  dns_resolver_resolve_NS :: "string \<Rightarrow> 'w \<Rightarrow> (exc + string list) \<times> 'w"
  dns_resolver_resolve_A :: "string \<Rightarrow> 'w \<Rightarrow> (exc + ipv4 list) \<times> 'w"
  dns_zone_from_xfr :: "string \<Rightarrow> string \<Rightarrow> 'w \<Rightarrow> (exc + zone) \<times> 'w"
  subprocess_run :: "string list \<Rightarrow> 'w \<Rightarrow> (exc + completed_process) \<times> 'w"
  requests_get :: "string \<Rightarrow> 'w \<Rightarrow> (exc + (exc + pyval)) \<times> 'w"

text \<open>A table of the \<^verbatim>\<open>prettytable\<close> library: its header and its rows of cells.\<close>

record table =
  field_names :: "string list"
  rows :: "pyval list list"

text \<open>
  The trace of a run: every call of a collaborator, every line and table printed, and,
  as bookkeeping for the statements about the probing loop, the value each transfer
  strategy handed back to \<open>main\<close> (\<open>Returned\<close>: strategy, server, value or exception).
\<close>

datatype event =
    Resolve string string
  | Xfr string string
  | Run "string list"
  | HttpGet string
  | Print string
  | PrintTable table
  | Returned string string "exc + pyval list option"

record 'w st =
  world :: 'w
  log :: "event list"

definition py_print :: "string \<Rightarrow> 'w st \<Rightarrow> 'w st" where
  "py_print line s = s\<lparr>log := log s @ [Print line]\<rparr>"

definition print_table :: "table \<Rightarrow> 'w st \<Rightarrow> 'w st" where
  "print_table t s = s\<lparr>log := log s @ [PrintTable t]\<rparr>"

definition call_resolve_NS :: "'w env \<Rightarrow> string \<Rightarrow> 'w st \<Rightarrow> (exc + string list) \<times> 'w st" where
  "call_resolve_NS env name s =
     (case dns_resolver_resolve_NS env name (world s) of
        (r, w) \<Rightarrow> (r, \<lparr>world = w, log = log s @ [Resolve name ''NS'']\<rparr>))"

definition call_resolve_A :: "'w env \<Rightarrow> string \<Rightarrow> 'w st \<Rightarrow> (exc + ipv4 list) \<times> 'w st" where
  "call_resolve_A env name s =
     (case dns_resolver_resolve_A env name (world s) of
        (r, w) \<Rightarrow> (r, \<lparr>world = w, log = log s @ [Resolve name ''A'']\<rparr>))"

definition call_xfr :: "'w env \<Rightarrow> string \<Rightarrow> string \<Rightarrow> 'w st \<Rightarrow> (exc + zone) \<times> 'w st" where
  "call_xfr env server domain s =
     (case dns_zone_from_xfr env server domain (world s) of
        (r, w) \<Rightarrow> (r, \<lparr>world = w, log = log s @ [Xfr server domain]\<rparr>))"

definition call_run :: "'w env \<Rightarrow> string list \<Rightarrow> 'w st \<Rightarrow> (exc + completed_process) \<times> 'w st" where
  "call_run env argv s =
     (case subprocess_run env argv (world s) of
        (r, w) \<Rightarrow> (r, \<lparr>world = w, log = log s @ [Run argv]\<rparr>))"

definition call_get :: "'w env \<Rightarrow> string \<Rightarrow> 'w st \<Rightarrow> (exc + (exc + pyval)) \<times> 'w st" where
  "call_get env url s =
     (case requests_get env url (world s) of
        (r, w) \<Rightarrow> (r, \<lparr>world = w, log = log s @ [HttpGet url]\<rparr>))"

section \<open>Name resolution\<close>

text \<open>
  \<open>resolve_ns_to_ip\<close>: the first address of the answer as text. The three resolver
  exceptions of the \<^verbatim>\<open>except\<close> clause give \<open>None\<close>; any other exception, and the
  \<^verbatim>\<open>IndexError\<close> of \<^verbatim>\<open>result[0]\<close> on an empty answer, leaves the function.
\<close>

definition resolve_ns_to_ip :: "'w env \<Rightarrow> string \<Rightarrow> 'w st \<Rightarrow> (exc + string option) \<times> 'w st" where
  "resolve_ns_to_ip env ns_name s =
     (case call_resolve_A env ns_name s of
        (Inr result, s1) \<Rightarrow>
          (case result of
             [] \<Rightarrow> (Inl (Exc IndexError ''list index out of range''), s1)
           | a # _ \<Rightarrow> (Inr (Some (str_A a)), s1))
      | (Inl e, s1) \<Rightarrow>
          if isinstance e [NoAnswer, NXDOMAIN, DNSTimeout] then (Inr None, s1)
          else (Inl e, s1))"

section \<open>Transfer strategies\<close>

text \<open>
  The three nested loops of \<open>zone_transfer_dnspython\<close> over the zone. The function's two
  \<^verbatim>\<open>except\<close> clauses are tried in order; the class names in them are taken to resolve
  (\<^verbatim>\<open>dns.xfr\<close> exists from dnspython 2.1 on and is loaded by \<^verbatim>\<open>dns.query\<close>).
\<close>

definition zone_records :: "zone \<Rightarrow> pyval list" where
  "zone_records z =
     concat (map (\<lambda>(name, rdatasets).
       concat (map (\<lambda>(rdtype, rdatas).
         map (\<lambda>rdata. PyTuple [PyStr name, PyStr rdtype, PyStr rdata]) rdatas) rdatasets)) z)"

definition zone_transfer_dnspython ::
  "'w env \<Rightarrow> string \<Rightarrow> string \<Rightarrow> 'w st \<Rightarrow> (exc + pyval list option) \<times> 'w st" where
  "zone_transfer_dnspython env domain server s =
     (case call_xfr env server domain s of
        (Inr z, s1) \<Rightarrow> (Inr (Some (zone_records z)), s1)
      | (Inl e, s1) \<Rightarrow>
          if isinstance e [TransferError, ConnectionResetError]
          then (Inr None, py_print (''Error with dnspython: '' @ exc_msg e) s1)
          else if isinstance e [FormError, BadResponse, UnexpectedSource, DNSTimeout, ValueError]
          then (Inr None, py_print (''Error with dnspython: '' @ exc_msg e) s1)
          else (Inl e, s1))"

definition zone_transfer_nslookup ::
  "'w env \<Rightarrow> string \<Rightarrow> string \<Rightarrow> 'w st \<Rightarrow> (exc + pyval list option) \<times> 'w st" where
  "zone_transfer_nslookup env domain server s =
     (case call_run env [''nslookup'', ''-type=AXFR'', domain, server] s of
        (Inr result, s1) \<Rightarrow>
          if contains ''transfer failed'' (stderr result) \<or> returncode result \<noteq> 0
          then (Inr None, py_print ''Transfer failed with nslookup.'' s1)
          else (let records = map PyStr (splitlines (stdout result))
                in (Inr (if records \<noteq> [] then Some records else None), s1))
      | (Inl e, s1) \<Rightarrow> (Inr None, py_print (''Error with nslookup: '' @ exc_msg e) s1))"

definition zone_transfer_dig ::
  "'w env \<Rightarrow> string \<Rightarrow> string \<Rightarrow> 'w st \<Rightarrow> (exc + pyval list option) \<times> 'w st" where
  "zone_transfer_dig env domain server s =
     (case call_run env [''dig'', ''@'' @ server, domain, ''AXFR''] s of
        (Inr result, s1) \<Rightarrow>
          if contains ''Transfer failed'' (stderr result) \<or> returncode result \<noteq> 0
          then (Inr None, py_print ''Transfer failed with dig.'' s1)
          else (let records = map PyStr (splitlines (stdout result))
                in (Inr (if records \<noteq> [] then Some records else None), s1))
      | (Inl e, s1) \<Rightarrow> (Inr None, py_print (''Error with dig: '' @ exc_msg e) s1))"

definition zone_transfer_nmap ::
  "'w env \<Rightarrow> string \<Rightarrow> string \<Rightarrow> 'w st \<Rightarrow> (exc + pyval list option) \<times> 'w st" where
  "zone_transfer_nmap env domain server s =
     (case call_run env [''nmap'', ''--script'', ''dns-zone-transfer'', ''-p 53'', server] s of
        (Inr result, s1) \<Rightarrow>
          if contains ''Transfer failed'' (stderr result) \<or> returncode result \<noteq> 0
          then (Inr None, py_print ''Transfer failed with nmap.'' s1)
          else (let records = map PyStr (splitlines (stdout result))
                in (Inr (if records \<noteq> [] then Some records else None), s1))
      | (Inl e, s1) \<Rightarrow> (Inr None, py_print (''Error with nmap: '' @ exc_msg e) s1))"

section \<open>ASN lookup\<close>

text \<open>
  \<^verbatim>\<open>data.get(key, default)\<close>: a dictionary gives the value under the key or the default;
  any other JSON value has no \<^verbatim>\<open>get\<close> and raises \<^verbatim>\<open>AttributeError\<close>.
\<close>

fun py_get :: "pyval \<Rightarrow> string \<Rightarrow> pyval \<Rightarrow> exc + pyval" where
  "py_get (PyDict items) key dflt =
     Inr (case map_of items key of Some v \<Rightarrow> v | None \<Rightarrow> dflt)"
| "py_get v key dflt = Inl (Exc AttributeError ''object has no attribute get'')"

definition fetch_asn_description :: "'w env \<Rightarrow> string \<Rightarrow> 'w st \<Rightarrow> pyval \<times> 'w st" where
  "fetch_asn_description env ip_address s =
     (case call_get env (''https://ipinfo.io/'' @ ip_address @ ''/json'') s of
        (Inr response, s1) \<Rightarrow>
          (case response of
             Inr data \<Rightarrow>
               (case py_get data ''org'' (PyStr ''ASN description not available'') of
                  Inr v \<Rightarrow> (v, s1)
                | Inl e \<Rightarrow>
                    (PyStr ''ASN description not available'',
                     py_print (''Error fetching ASN description: '' @ exc_msg e) s1))
           | Inl e \<Rightarrow>
               (PyStr ''ASN description not available'',
                py_print (''Error fetching ASN description: '' @ exc_msg e) s1))
      | (Inl e, s1) \<Rightarrow>
          (PyStr ''ASN description not available'',
           py_print (''Error fetching ASN description: '' @ exc_msg e) s1))"

section \<open>Orchestration\<close>

text \<open>The list comprehension of \<open>main\<close> that resolves every NS target, in order.\<close>

fun resolve_all :: "'w env \<Rightarrow> string list \<Rightarrow> 'w st \<Rightarrow> (exc + string option list) \<times> 'w st" where
  "resolve_all env [] s = (Inr [], s)"
| "resolve_all env (target # targets) s =
     (case resolve_ns_to_ip env target s of
        (Inl e, s1) \<Rightarrow> (Inl e, s1)
      | (Inr a, s1) \<Rightarrow>
          (case resolve_all env targets s1 of
             (Inl e, s2) \<Rightarrow> (Inl e, s2)
           | (Inr addrs, s2) \<Rightarrow> (Inr (a # addrs), s2)))"

text \<open>A strategy called from the probing loop; the value it hands back is noted in the trace.\<close>

definition attempt ::
  "string \<Rightarrow> string \<Rightarrow> ('w st \<Rightarrow> (exc + pyval list option) \<times> 'w st) \<Rightarrow> 'w st
     \<Rightarrow> (exc + pyval list option) \<times> 'w st" where
  "attempt tool server strategy s =
     (case strategy s of (r, s1) \<Rightarrow> (r, s1\<lparr>log := log s1 @ [Returned tool server r]\<rparr>))"

text \<open>
  The \<^verbatim>\<open>if records: ... break / elif records is None: ... break\<close> block that follows
  every strategy call, on the pair \<open>(all_records, successful)\<close>: \<open>Some\<close> is the state
  the loop is left with, \<open>None\<close> means that control falls through to the next statement.
\<close>

definition conclude ::
  "string \<Rightarrow> string \<Rightarrow> pyval list option \<Rightarrow> pyval list \<times> bool \<Rightarrow> 'w st
     \<Rightarrow> (pyval list \<times> bool) option \<times> 'w st" where
  "conclude tool server records acc s =
     (case records of
        Some (r # rs) \<Rightarrow> (Some (fst acc @ r # rs, True), s)
      | Some [] \<Rightarrow> (None, s)
      | None \<Rightarrow>
          (Some (fst acc @ [PyStr ''No threats were found. Please try again.''], snd acc),
           py_print (''Transfer failed or connection reset with '' @ tool @ '' server: '' @ server) s))"

text \<open>
  The loop over \<open>ns_servers\<close>. An exception of a strategy leaves the loop and \<open>main\<close>.
\<close>

fun probe_servers ::
  "'w env \<Rightarrow> string \<Rightarrow> string option list \<Rightarrow> pyval list \<times> bool \<Rightarrow> 'w st
     \<Rightarrow> (exc + pyval list \<times> bool) \<times> 'w st" where
  "probe_servers env domain [] acc s = (Inr acc, s)"
| "probe_servers env domain (None # rest) acc s = probe_servers env domain rest acc s"
| "probe_servers env domain (Some server # rest) acc s =
     (case attempt ''dnspython'' server (zone_transfer_dnspython env domain server)
             (py_print (''Checking NS server: '' @ server) s) of
        (Inl e, s1) \<Rightarrow> (Inl e, s1)
      | (Inr records, s1) \<Rightarrow>
     (case conclude ''dnspython'' server records acc s1 of
        (Some acc', s2) \<Rightarrow> (Inr acc', s2)
      | (None, s2) \<Rightarrow>
     (case attempt ''nslookup'' server (zone_transfer_nslookup env domain server) s2 of
        (Inl e, s3) \<Rightarrow> (Inl e, s3)
      | (Inr records, s3) \<Rightarrow>
     (case conclude ''nslookup'' server records acc s3 of
        (Some acc', s4) \<Rightarrow> (Inr acc', s4)
      | (None, s4) \<Rightarrow>
     (case attempt ''dig'' server (zone_transfer_dig env domain server) s4 of
        (Inl e, s5) \<Rightarrow> (Inl e, s5)
      | (Inr records, s5) \<Rightarrow>
     (case conclude ''dig'' server records acc s5 of
        (Some acc', s6) \<Rightarrow> (Inr acc', s6)
      | (None, s6) \<Rightarrow>
     (case attempt ''nmap'' server (zone_transfer_nmap env domain server) s6 of
        (Inl e, s7) \<Rightarrow> (Inl e, s7)
      | (Inr records, s7) \<Rightarrow>
     (case conclude ''nmap'' server records acc s7 of
        (Some acc', s8) \<Rightarrow> (Inr acc', s8)
      | (None, s8) \<Rightarrow> probe_servers env domain rest acc s8))))))))"

text \<open>
  The loop that fills the general information table: \<^verbatim>\<open>if ns_server:\<close> holds for an
  address that is neither \<open>None\<close> nor the empty string.
\<close>

fun asn_rows :: "'w env \<Rightarrow> string option list \<Rightarrow> table \<Rightarrow> 'w st \<Rightarrow> table \<times> 'w st" where
  "asn_rows env [] t s = (t, s)"
| "asn_rows env (ns_server # rest) t s =
     (case ns_server of
        Some (c # cs) \<Rightarrow>
          (case fetch_asn_description env (c # cs) s of
             (asn_description, s1) \<Rightarrow>
               asn_rows env rest (t\<lparr>rows := rows t @ [[PyStr (c # cs), asn_description]]\<rparr>) s1)
      | _ \<Rightarrow> asn_rows env rest t s)"

text \<open>The values \<open>main\<close> holds when it ends.\<close>

record run_result =
  ns_servers :: "string option list"
  successful :: bool
  all_records :: "pyval list"
  general_info_table :: table
  result_table :: table

definition build_result_table :: "bool \<Rightarrow> pyval list \<Rightarrow> table" where
  "build_result_table ok recs =
     (if ok then \<lparr>field_names = [''Threat successfully found''], rows = map (\<lambda>r. [r]) recs\<rparr>
      else \<lparr>field_names = [''No threats were found. Please try again.''],
            rows = [[PyStr ''Transfer failed.'']]\<rparr>)"

text \<open>Lines 152 to 175 of \<open>main\<close>: the two tables and what is printed.\<close>

definition report ::
  "'w env \<Rightarrow> string \<Rightarrow> string option list \<Rightarrow> pyval list \<times> bool \<Rightarrow> 'w st \<Rightarrow> run_result \<times> 'w st" where
  "report env domain servers acc s =
     (case asn_rows env servers \<lparr>field_names = [''NS Record'', ''ASN Description''], rows = []\<rparr> s of
        (info, s1) \<Rightarrow>
          (let result = build_result_table (snd acc) (fst acc);
               s2 = (if snd acc then py_print (''Zone transfer successful for domain '' @ domain) s1
                     else py_print ''Oh no! Unfortunately,'' s1);
               s3 = print_table result s2;
               s4 = py_print (CHR 0x0A # ''DNS INFO:'') s3;
               s5 = print_table info s4
           in (\<lparr>ns_servers = servers, successful = snd acc, all_records = fst acc,
                general_info_table = info, result_table = result\<rparr>, s5)))"

text \<open>
  \<open>main\<close>, from the parsed \<^verbatim>\<open>--domain\<close> argument on. The NS lookup of line 95 stands
  outside every \<^verbatim>\<open>try\<close>.
\<close>

definition main :: "'w env \<Rightarrow> string \<Rightarrow> 'w st \<Rightarrow> (exc + run_result) \<times> 'w st" where
  "main env domain s =
     (case call_resolve_NS env domain s of
        (Inl e, s1) \<Rightarrow> (Inl e, s1)
      | (Inr ns_records, s1) \<Rightarrow>
          (case resolve_all env ns_records s1 of
             (Inl e, s2) \<Rightarrow> (Inl e, s2)
           | (Inr servers, s2) \<Rightarrow>
               (case probe_servers env domain servers ([], False) s2 of
                  (Inl e, s3) \<Rightarrow> (Inl e, s3)
                | (Inr acc, s3) \<Rightarrow>
                    (case report env domain servers acc s3 of
                       (r, s4) \<Rightarrow> (Inr r, s4)))))"

text \<open>A run starts in some state of the world, with an empty trace.\<close>

definition start :: "'w \<Rightarrow> 'w st" where
  "start w = \<lparr>world = w, log = []\<rparr>"

text \<open>
  \<open>fetch_ns_records\<close> guards the NS lookup, but nothing calls it: \<open>main\<close> does the
  lookup itself.
\<close>

definition fetch_ns_records :: "'w env \<Rightarrow> string \<Rightarrow> 'w st \<Rightarrow> string list \<times> 'w st" where
  "fetch_ns_records env domain s =
     (case call_resolve_NS env domain s of
        (Inr ns_records, s1) \<Rightarrow> (ns_records, s1)
      | (Inl e, s1) \<Rightarrow> ([], py_print (''Error fetching NS records: '' @ exc_msg e) s1))"

section \<open>Reading the trace\<close>

text \<open>
  The events of the transfer strategies: the zone transfer of the library, a tool run
  (\<^verbatim>\<open>subprocess.run\<close> is called by the three tool strategies only) and a strategy's return.
\<close>

fun is_transfer :: "event \<Rightarrow> bool" where
  "is_transfer (Xfr server domain) = True"
| "is_transfer (Run argv) = True"
| "is_transfer (Returned tool server r) = True"
| "is_transfer ev = False"

definition transfer_events :: "event list \<Rightarrow> event list" where
  "transfer_events evs = filter is_transfer evs"

text \<open>The events of one tool: its process being started, and its strategy returning.\<close>

fun uses_tool :: "string \<Rightarrow> event \<Rightarrow> bool" where
  "uses_tool tool (Run argv) = (case argv of [] \<Rightarrow> False | a # args \<Rightarrow> a = tool)"
| "uses_tool tool (Returned t server r) = (t = tool)"
| "uses_tool tool ev = False"

text \<open>
  What probing one resolved server can add to the trace: the library's transfer and its
  conclusive return, or the library's empty list followed by the run of
  \<^verbatim>\<open>nslookup\<close> and its conclusive return.
\<close>

definition probe_shape :: "string \<Rightarrow> string \<Rightarrow> event list \<Rightarrow> bool" where
  "probe_shape domain server evs =
     (\<exists>r. r \<noteq> Inr (Some []) \<and>
        (evs = [Xfr server domain, Returned ''dnspython'' server r] \<or>
         evs = [Xfr server domain, Returned ''dnspython'' server (Inr (Some [])),
                Run [''nslookup'', ''-type=AXFR'', domain, server],
                Returned ''nslookup'' server r]))"

text \<open>The first address of the list that is not \<open>None\<close>, if any.\<close>

fun first_resolved :: "string option list \<Rightarrow> string option" where
  "first_resolved [] = None"
| "first_resolved (None # rest) = first_resolved rest"
| "first_resolved (Some server # rest) = Some server"

section \<open>Example runs\<close>

text \<open>
  A small world for concrete runs: three name servers, of which the resolver knows the
  addresses the function \<open>a_answer\<close> gives; every zone transfer, tool run and HTTP request
  has the one answer given.
\<close>

definition example_A :: "string \<Rightarrow> exc + ipv4 list" where
  "example_A name =
     (if name = ''ns1.example.com.'' then Inr [(192, 0, 2, 1)]
      else if name = ''ns2.example.com.'' then Inr [(192, 0, 2, 2), (192, 0, 2, 20)]
      else if name = ''ns3.example.com.'' then Inr [(192, 0, 2, 3)]
      else Inl (Exc NXDOMAIN ''The DNS query name does not exist''))"

definition example_env ::
  "(string \<Rightarrow> exc + ipv4 list) \<Rightarrow> (exc + zone) \<Rightarrow> (exc + completed_process) \<Rightarrow> (exc + (exc + pyval))
     \<Rightarrow> unit env" where
  "example_env a_answer xfr_answer run_answer get_answer =
     \<lparr>dns_resolver_resolve_NS =
        (\<lambda>name w. (Inr [''ns1.example.com.'', ''ns2.example.com.'', ''ns3.example.com.''], w)),
      dns_resolver_resolve_A = (\<lambda>name w. (a_answer name, w)),
      dns_zone_from_xfr = (\<lambda>server domain w. (xfr_answer, w)),
      subprocess_run = (\<lambda>argv w. (run_answer, w)),
      requests_get = (\<lambda>url w. (get_answer, w))\<rparr>"

definition refused :: "exc + zone" where
  "refused = Inl (Exc TransferError ''Zone transfer error: REFUSED'')"

definition no_tool :: "exc + completed_process" where
  "no_tool = Inl (Exc FileNotFoundError ''No such file or directory'')"

definition org_reply :: "exc + (exc + pyval)" where
  "org_reply = Inr (Inr (PyDict [(''ip'', PyStr ''192.0.2.1''), (''org'', PyStr ''AS64496 Example Net'')]))"

definition two_lines :: "exc + completed_process" where
  "two_lines =
     Inr \<lparr>returncode = 0, stdout = ''a'' @ [CHR 0x0A] @ ''b'' @ [CHR 0x0A], stderr = []\<rparr>"

definition unresolvable :: "string \<Rightarrow> exc + ipv4 list" where
  "unresolvable name = Inl (Exc NXDOMAIN ''The DNS query name does not exist'')"

definition one_record_zone :: "exc + zone" where
  "one_record_zone = Inr [(''example.com.'', [(''A'', [''1.2.3.4''])])]"

definition connection_refused :: "exc + zone" where
  "connection_refused = Inl (Exc ConnectionRefusedError ''[Errno 111] Connection refused'')"

definition no_ns_env :: "unit env" where
  "no_ns_env =
     (example_env example_A refused no_tool org_reply)
       \<lparr>dns_resolver_resolve_NS :=
          (\<lambda>name w. (Inl (Exc NoNameservers ''All nameservers failed to answer the query''), w))\<rparr>"

text \<open>The equations that evaluate a concrete run.\<close>

lemmas run_defs =
  main_def call_resolve_NS_def call_resolve_A_def call_xfr_def call_run_def call_get_def
  resolve_ns_to_ip_def zone_transfer_dnspython_def zone_transfer_nslookup_def
  zone_transfer_dig_def zone_transfer_nmap_def fetch_asn_description_def attempt_def
  conclude_def report_def build_result_table_def py_print_def print_table_def start_def
  isinstance_def zone_records_def splitlines_def linebreak_def Let_def decimal.simps
  example_env_def example_A_def refused_def no_tool_def org_reply_def two_lines_def
  unresolvable_def one_record_zone_def no_ns_env_def connection_refused_def

section \<open>Facts about strings\<close>

text \<open>\<open>contains\<close> is the substring test: the needle stands between two strings.\<close>

lemma contains_iff: "contains p s \<longleftrightarrow> (\<exists>a b. s = a @ p @ b)"
proof (induction s)
  case Nil
  then show ?case by simp
next
  case (Cons c cs)
  show ?case
  proof
    assume "contains p (c # cs)"
    then consider "prefix p (c # cs)" | "contains p cs" by auto
    then show "\<exists>a b. c # cs = a @ p @ b"
    proof cases
      case 1
      then obtain b where "c # cs = p @ b" by (auto simp: prefix_def)
      then have "c # cs = [] @ p @ b" by simp
      then show ?thesis by blast
    next
      case 2
      with Cons obtain a b where "cs = a @ p @ b" by blast
      then have "c # cs = (c # a) @ p @ b" by simp
      then show ?thesis by blast
    qed
  next
    assume "\<exists>a b. c # cs = a @ p @ b"
    then obtain a b where ab: "c # cs = a @ p @ b" by blast
    show "contains p (c # cs)"
    proof (cases a)
      case Nil
      with ab have "prefix p (c # cs)" by (metis append_Nil prefixI)
      then show ?thesis by simp
    next
      case (Cons x a')
      with ab have "cs = a' @ p @ b" by simp
      with Cons.IH have "contains p cs" by blast
      then show ?thesis by simp
    qed
  qed
qed

text \<open>Only the empty string has no lines.\<close>

lemma splitlines_from_empty: "splitlines_from cur s = [] \<longleftrightarrow> cur = [] \<and> s = []"
  by (induction cur s rule: splitlines_from.induct) auto

lemma splitlines_empty: "splitlines s = [] \<longleftrightarrow> s = []"
  by (simp add: splitlines_def splitlines_from_empty)


section \<open>The transfer events of a run\<close>

text \<open>
  What each part of the program adds to the transfer events of the trace. Printing,
  resolving and the ASN lookup add none.
\<close>

lemma transfer_events_simps [simp]:
  "transfer_events [] = []"
  "transfer_events (ev # evs) = (if is_transfer ev then ev # transfer_events evs else transfer_events evs)"
  by (simp_all add: transfer_events_def)

lemma transfer_events_append [simp]:
  "transfer_events (xs @ ys) = transfer_events xs @ transfer_events ys"
  by (simp add: transfer_events_def)

lemma log_py_print [simp]: "log (py_print l s) = log s @ [Print l]"
  by (simp add: py_print_def)

lemma log_print_table [simp]: "log (print_table t s) = log s @ [PrintTable t]"
  by (simp add: print_table_def)

text \<open>
  A strategy called from the loop adds its one call and its return; \<^verbatim>\<open>nslookup\<close> never
  returns the empty list.
\<close>

lemma attempt_dnspython_events:
  assumes "attempt ''dnspython'' server (zone_transfer_dnspython env domain server) s = (r, s')"
  shows "transfer_events (log s') =
           transfer_events (log s) @ [Xfr server domain, Returned ''dnspython'' server r]"
  using assms
  by (auto simp: attempt_def zone_transfer_dnspython_def call_xfr_def transfer_events_def
      split: prod.splits sum.splits if_splits)

lemma nslookup_outcome:
  assumes "zone_transfer_nslookup env domain server s = (r, s')"
  shows "r = Inr None \<or> (\<exists>x xs. r = Inr (Some (x # xs)))"
  using assms
  by (auto simp: zone_transfer_nslookup_def call_run_def Let_def neq_Nil_conv
      split: prod.splits sum.splits if_splits)

lemma attempt_nslookup_events:
  assumes "attempt ''nslookup'' server (zone_transfer_nslookup env domain server) s = (r, s')"
  shows "transfer_events (log s') =
           transfer_events (log s)
             @ [Run [''nslookup'', ''-type=AXFR'', domain, server], Returned ''nslookup'' server r]"
  using assms
  by (auto simp: attempt_def zone_transfer_nslookup_def call_run_def transfer_events_def Let_def
      split: prod.splits sum.splits if_splits)

lemma attempt_nslookup_outcome:
  assumes "attempt ''nslookup'' server (zone_transfer_nslookup env domain server) s = (r, s')"
  shows "r = Inr None \<or> (\<exists>x xs. r = Inr (Some (x # xs)))"
  using assms nslookup_outcome [of env domain server s]
  by (auto simp: attempt_def split: prod.splits)

lemma conclude_events:
  assumes "conclude tool server records acc s = (x, s')"
  shows "transfer_events (log s') = transfer_events (log s)"
  using assms
  by (auto simp: conclude_def transfer_events_def split: option.splits list.splits)

lemma conclude_fallthrough:
  "fst (conclude tool server records acc s) = None \<longleftrightarrow> records = Some []"
  by (auto simp: conclude_def split: option.splits list.splits)

text \<open>
  Probing a resolved server never reaches the next server: the library's answer is
  conclusive, or \<^verbatim>\<open>nslookup\<close>'s is.
\<close>

lemma probe_servers_Some_events:
  assumes run: "probe_servers env domain (Some server # rest) acc s = (res, s')"
  shows "\<exists>evs. transfer_events (log s') = transfer_events (log s) @ evs
           \<and> probe_shape domain server evs"
proof -
  let ?s0 = "py_print (''Checking NS server: '' @ server) s"
  obtain r1 s1 where a1:
    "attempt ''dnspython'' server (zone_transfer_dnspython env domain server) ?s0 = (r1, s1)"
    by (cases "attempt ''dnspython'' server (zone_transfer_dnspython env domain server) ?s0")
  have ev1: "transfer_events (log s1) =
      transfer_events (log s) @ [Xfr server domain, Returned ''dnspython'' server r1]"
    using attempt_dnspython_events [OF a1] by (simp add: transfer_events_def)
  show ?thesis
  proof (cases r1)
    case (Inl e)
    with run a1 have "s' = s1" by simp
    with ev1 Inl show ?thesis by (auto simp: probe_shape_def)
  next
    case (Inr records)
    obtain x s2 where c1: "conclude ''dnspython'' server records acc s1 = (x, s2)"
      by (cases "conclude ''dnspython'' server records acc s1")
    have ev2: "transfer_events (log s2) = transfer_events (log s1)"
      using conclude_events [OF c1] .
    show ?thesis
    proof (cases x)
      case (Some acc')
      with run a1 Inr c1 have "s' = s2" by simp
      moreover from Some c1 have "records \<noteq> Some []"
        using conclude_fallthrough [of "''dnspython''" server records acc s1] by auto
      ultimately show ?thesis using ev1 ev2 Inr by (auto simp: probe_shape_def)
    next
      case None
      with c1 have empty: "records = Some []"
        using conclude_fallthrough [of "''dnspython''" server records acc s1] by simp
      obtain r2 s3 where a2:
        "attempt ''nslookup'' server (zone_transfer_nslookup env domain server) s2 = (r2, s3)"
        by (cases "attempt ''nslookup'' server (zone_transfer_nslookup env domain server) s2")
      have ev3: "transfer_events (log s3) = transfer_events (log s2)
          @ [Run [''nslookup'', ''-type=AXFR'', domain, server], Returned ''nslookup'' server r2]"
        using attempt_nslookup_events [OF a2] .
      from attempt_nslookup_outcome [OF a2] obtain records2 where
        r2: "r2 = Inr records2" and ne: "records2 \<noteq> Some []" by auto
      obtain y s4 where c2: "conclude ''nslookup'' server records2 acc s3 = (y, s4)"
        by (cases "conclude ''nslookup'' server records2 acc s3")
      have ev4: "transfer_events (log s4) = transfer_events (log s3)"
        using conclude_events [OF c2] .
      from ne c2 obtain acc' where y: "y = Some acc'"
        using conclude_fallthrough [of "''nslookup''" server records2 acc s3] by (cases y) auto
      from run a1 Inr c1 None a2 r2 c2 y have "s' = s4" by simp
      with ev1 ev2 ev3 ev4 empty Inr r2 ne show ?thesis by (auto simp: probe_shape_def)
    qed
  qed
qed

text \<open>So the loop probes the first resolved server of the list and no other.\<close>

lemma probe_servers_events:
  assumes "probe_servers env domain servers acc s = (res, s')"
  shows "\<exists>evs. transfer_events (log s') = transfer_events (log s) @ evs \<and>
           (case first_resolved servers of None \<Rightarrow> evs = []
            | Some server \<Rightarrow> probe_shape domain server evs)"
  using assms
proof (induction servers)
  case Nil
  then show ?case by simp
next
  case (Cons a servers)
  show ?case
  proof (cases a)
    case None
    with Cons show ?thesis by simp
  next
    case (Some server)
    with Cons.prems probe_servers_Some_events [of env domain server servers acc s res s']
    show ?thesis by simp
  qed
qed

text \<open>The rest of \<open>main\<close> adds no transfer event.\<close>

lemma call_resolve_NS_events:
  "call_resolve_NS env name s = (r, s') \<Longrightarrow> transfer_events (log s') = transfer_events (log s)"
  by (auto simp: call_resolve_NS_def transfer_events_def split: prod.splits)

lemma resolve_ns_to_ip_events:
  "resolve_ns_to_ip env name s = (r, s') \<Longrightarrow> transfer_events (log s') = transfer_events (log s)"
  by (auto simp: resolve_ns_to_ip_def call_resolve_A_def transfer_events_def
      split: prod.splits sum.splits list.splits if_splits)

lemma resolve_all_events:
  "resolve_all env targets s = (r, s') \<Longrightarrow> transfer_events (log s') = transfer_events (log s)"
proof (induction targets arbitrary: s r s')
  case Nil
  then show ?case by simp
next
  case (Cons target targets)
  obtain r1 s1 where h: "resolve_ns_to_ip env target s = (r1, s1)"
    by (cases "resolve_ns_to_ip env target s")
  note e1 = resolve_ns_to_ip_events [OF h]
  show ?case
  proof (cases r1)
    case (Inl e)
    with Cons.prems h e1 show ?thesis by simp
  next
    case (Inr a)
    obtain r2 s2 where h2: "resolve_all env targets s1 = (r2, s2)"
      by (cases "resolve_all env targets s1")
    from Cons.IH [OF h2] e1 have "transfer_events (log s2) = transfer_events (log s)" by simp
    with Cons.prems h Inr h2 show ?thesis by (cases r2) auto
  qed
qed

lemma fetch_asn_description_events:
  "fetch_asn_description env ip s = (v, s') \<Longrightarrow> transfer_events (log s') = transfer_events (log s)"
  by (auto simp: fetch_asn_description_def call_get_def transfer_events_def
      split: prod.splits sum.splits)

lemma asn_rows_events:
  "asn_rows env servers t s = (t', s') \<Longrightarrow> transfer_events (log s') = transfer_events (log s)"
proof (induction servers arbitrary: t s)
  case Nil
  then show ?case by simp
next
  case (Cons a servers)
  show ?case
  proof (cases a)
    case None
    with Cons show ?thesis by simp
  next
    case (Some addr)
    show ?thesis
    proof (cases addr)
      case Nil
      with Some Cons show ?thesis by simp
    next
      case (Cons c cs)
      obtain v s1 where f: "fetch_asn_description env (c # cs) s = (v, s1)"
        by (cases "fetch_asn_description env (c # cs) s")
      from Cons.prems Some Cons f
      have "asn_rows env servers (t\<lparr>rows := rows t @ [[PyStr (c # cs), v]]\<rparr>) s1 = (t', s')"
        by simp
      from Cons.IH [OF this] fetch_asn_description_events [OF f] show ?thesis by simp
    qed
  qed
qed

lemma report_events:
  assumes "report env domain servers acc s = (r, s')"
  shows "transfer_events (log s') = transfer_events (log s)"
proof -
  obtain info s1 where a:
    "asn_rows env servers \<lparr>field_names = [''NS Record'', ''ASN Description''], rows = []\<rparr> s = (info, s1)"
    by (cases "asn_rows env servers \<lparr>field_names = [''NS Record'', ''ASN Description''], rows = []\<rparr> s")
  from assms a have "transfer_events (log s') = transfer_events (log s1)"
    by (auto simp: report_def Let_def)
  with asn_rows_events [OF a] show ?thesis by simp
qed

lemma main_events:
  "\<exists>evs. transfer_events (log (snd (main env domain s))) = transfer_events (log s) @ evs \<and>
     (evs = [] \<or> (\<exists>server. probe_shape domain server evs))"
proof -
  obtain r1 s1 where h1: "call_resolve_NS env domain s = (r1, s1)"
    by (cases "call_resolve_NS env domain s")
  note e1 = call_resolve_NS_events [OF h1]
  show ?thesis
  proof (cases r1)
    case (Inl e)
    with h1 e1 show ?thesis by (simp add: main_def)
  next
    case (Inr targets)
    obtain r2 s2 where h2: "resolve_all env targets s1 = (r2, s2)"
      by (cases "resolve_all env targets s1")
    note e2 = resolve_all_events [OF h2]
    show ?thesis
    proof (cases r2)
      case (Inl e)
      with h1 Inr h2 e1 e2 show ?thesis by (simp add: main_def)
    next
      case r2: (Inr servers)
      obtain r3 s3 where h3: "probe_servers env domain servers ([], False) s2 = (r3, s3)"
        by (cases "probe_servers env domain servers ([], False) s2")
      from probe_servers_events [OF h3] obtain evs where
        e3: "transfer_events (log s3) = transfer_events (log s2) @ evs" and
        shape: "case first_resolved servers of None \<Rightarrow> evs = []
                | Some server \<Rightarrow> probe_shape domain server evs"
        by blast
      from shape have shape': "evs = [] \<or> (\<exists>server. probe_shape domain server evs)"
        by (cases "first_resolved servers") auto
      show ?thesis
      proof (cases r3)
        case (Inl e)
        with h1 Inr h2 r2 h3 have "snd (main env domain s) = s3" by (simp add: main_def)
        with e1 e2 e3 shape' show ?thesis by simp
      next
        case r3: (Inr acc)
        obtain r4 s4 where h4: "report env domain servers acc s3 = (r4, s4)"
          by (cases "report env domain servers acc s3")
        with h1 Inr h2 r2 h3 r3 have "snd (main env domain s) = s4" by (simp add: main_def)
        with report_events [OF h4] e1 e2 e3 shape' show ?thesis by simp
      qed
    qed
  qed
qed

lemma probe_shape_tools:
  assumes "probe_shape domain server evs"
  shows "filter (\<lambda>ev. uses_tool ''dig'' ev \<or> uses_tool ''nmap'' ev) evs = []"
  using assms by (auto simp: probe_shape_def)

section \<open>Resolution, probing and reporting\<close>

text \<open>Unresolved servers are skipped by both loops, and the state stays as it is.\<close>

lemma probe_servers_all_None:
  "list_all (\<lambda>a. a = None) servers \<Longrightarrow> probe_servers env domain servers acc s = (Inr acc, s)"
  by (induction servers) auto

lemma asn_rows_all_None:
  "list_all (\<lambda>a. a = None) servers \<Longrightarrow> asn_rows env servers t s = (t, s)"
  by (induction servers) auto

text \<open>Data from the library on the first resolved server ends the loop with success.\<close>

lemma probe_servers_dnspython_data:
  assumes "first_resolved servers = Some server"
      and "zone_transfer_dnspython env domain server (py_print (''Checking NS server: '' @ server) s)
             = (Inr (Some (x # xs)), s1)"
  shows "probe_servers env domain servers acc s
           = (Inr (fst acc @ x # xs, True),
              s1\<lparr>log := log s1 @ [Returned ''dnspython'' server (Inr (Some (x # xs)))]\<rparr>)"
  using assms
proof (induction servers)
  case Nil
  then show ?case by simp
next
  case (Cons a servers)
  show ?case
  proof (cases a)
    case None
    with Cons show ?thesis by simp
  next
    case (Some b)
    with Cons.prems show ?thesis by (simp add: attempt_def conclude_def)
  qed
qed




text \<open>A run of \<open>main\<close> that returns has gone through its four phases.\<close>

lemma main_result_tables:
  assumes "main env domain s = (Inr r, s')"
  shows "\<exists>targets s1 s2 acc s3.
           call_resolve_NS env domain s = (Inr targets, s1)
         \<and> resolve_all env targets s1 = (Inr (ns_servers r), s2)
         \<and> probe_servers env domain (ns_servers r) ([], False) s2 = (Inr acc, s3)
         \<and> general_info_table r =
             fst (asn_rows env (ns_servers r)
                    \<lparr>field_names = [''NS Record'', ''ASN Description''], rows = []\<rparr> s3)"
proof -
  obtain r1 s1 where h1: "call_resolve_NS env domain s = (r1, s1)"
    by (cases "call_resolve_NS env domain s")
  with assms obtain targets where r1: "r1 = Inr targets"
    by (cases r1) (auto simp: main_def)
  obtain r2 s2 where h2: "resolve_all env targets s1 = (r2, s2)"
    by (cases "resolve_all env targets s1")
  with assms h1 r1 obtain servers where r2: "r2 = Inr servers"
    by (cases r2) (auto simp: main_def)
  obtain r3 s3 where h3: "probe_servers env domain servers ([], False) s2 = (r3, s3)"
    by (cases "probe_servers env domain servers ([], False) s2")
  with assms h1 r1 h2 r2 obtain acc where r3: "r3 = Inr acc"
    by (cases r3) (auto simp: main_def)
  obtain info s4 where a:
    "asn_rows env servers \<lparr>field_names = [''NS Record'', ''ASN Description''], rows = []\<rparr> s3
       = (info, s4)"
    by (cases "asn_rows env servers \<lparr>field_names = [''NS Record'', ''ASN Description''], rows = []\<rparr> s3")
  from assms h1 r1 h2 r2 h3 r3 a have "ns_servers r = servers" "general_info_table r = info"
    by (auto simp: main_def report_def Let_def)
  with h1 r1 h2 r2 h3 r3 a show ?thesis by auto
qed

section \<open>The claims\<close>

subsection \<open>The probing loop\<close>

text \<open>
  Claim C1. In the probing loop, the first server and strategy whose strategy returns
  data (a non-empty list) or \<open>None\<close> ends the whole iteration: no later strategy is tried
  on that server and no later server of the list is probed, for every list of resolved
  addresses and every behaviour of the strategies. In the trace of the loop, a strategy's
  return with a value other than the empty list is the last transfer event: nothing is
  transferred, run or returned after it. (A strategy that raises ends the loop as well.)
\<close>

theorem first_conclusive_outcome_ends_probing:
  assumes "transfer_events (log (snd (probe_servers env domain servers acc s)))
             = transfer_events (log s) @ before @ Returned tool server r # later"
      and "r \<noteq> Inr (Some [])"
  shows "later = []"
proof -
  obtain res s' where run: "probe_servers env domain servers acc s = (res, s')"
    by (cases "probe_servers env domain servers acc s")
  from probe_servers_events [OF run] obtain evs where
    evs: "transfer_events (log s') = transfer_events (log s) @ evs" and
    shape: "case first_resolved servers of None \<Rightarrow> evs = []
            | Some a \<Rightarrow> probe_shape domain a evs"
    by blast
  from assms(1) run evs have split: "evs = before @ Returned tool server r # later" by simp
  then have "evs \<noteq> []" by simp
  with shape obtain a where "probe_shape domain a evs"
    by (cases "first_resolved servers") auto
  then obtain r' where r': "r' \<noteq> Inr (Some [])" and
    forms: "evs = [Xfr a domain, Returned ''dnspython'' a r'] \<or>
            evs = [Xfr a domain, Returned ''dnspython'' a (Inr (Some [])),
                   Run [''nslookup'', ''-type=AXFR'', domain, a], Returned ''nslookup'' a r']"
    by (auto simp: probe_shape_def)
  from forms show ?thesis
  proof
    assume "evs = [Xfr a domain, Returned ''dnspython'' a r']"
    with split show ?thesis by (auto simp: append_eq_Cons_conv Cons_eq_append_conv)
  next
    assume "evs = [Xfr a domain, Returned ''dnspython'' a (Inr (Some [])),
                   Run [''nslookup'', ''-type=AXFR'', domain, a], Returned ''nslookup'' a r']"
    with split assms(2) show ?thesis by (auto simp: append_eq_Cons_conv Cons_eq_append_conv)
  qed
qed

text \<open>
  Three servers, the library refused by the first: the other two are never probed.
\<close>

theorem first_conclusive_outcome_ends_probing_witness:
  "transfer_events
     (log (snd (probe_servers (example_env example_A refused two_lines org_reply) ''example.com''
                  [Some ''192.0.2.1'', Some ''192.0.2.2'', Some ''192.0.2.3''] ([], False)
                  (start ()))))
     = transfer_events (log (start ())) @ [Xfr ''192.0.2.1'' ''example.com'']
         @ Returned ''dnspython'' ''192.0.2.1'' (Inr None) # []
   \<and> fst (probe_servers (example_env example_A refused two_lines org_reply) ''example.com''
            [Some ''192.0.2.1'', Some ''192.0.2.2'', Some ''192.0.2.3''] ([], False) (start ()))
       = Inr ([PyStr ''No threats were found. Please try again.''], False)"
proof -
  let ?env = "example_env example_A refused two_lines org_reply"
  let ?servers = "[Some ''192.0.2.1'', Some ''192.0.2.2'', Some ''192.0.2.3'']"
  have trace: "transfer_events (log (snd (probe_servers ?env ''example.com'' ?servers
                  ([], False) (start ()))))
     = transfer_events (log (start ())) @ [Xfr ''192.0.2.1'' ''example.com'']
         @ Returned ''dnspython'' ''192.0.2.1'' (Inr None) # []"
    by (simp add: run_defs)
  have conclusive: "(Inr None :: exc + pyval list option) \<noteq> Inr (Some [])" by simp
  from first_conclusive_outcome_ends_probing [OF trace conclusive] trace
  show ?thesis by (simp add: run_defs)
qed

text \<open>
  Claim C2. Whatever the process gives, \<open>zone_transfer_nslookup\<close> returns \<open>None\<close> or a
  non-empty list, never an empty list; as \<open>main\<close> goes on to the next strategy only after
  an empty list, \<open>zone_transfer_dig\<close> and \<open>zone_transfer_nmap\<close> are out of reach: no run of
  \<open>main\<close> starts \<^verbatim>\<open>dig\<close> or \<^verbatim>\<open>nmap\<close> or has one of the two strategies return.
\<close>

theorem nslookup_conclusive_dig_nmap_unreachable:
  "(fst (zone_transfer_nslookup env domain server s) = Inr None
      \<or> (\<exists>x xs. fst (zone_transfer_nslookup env domain server s) = Inr (Some (x # xs))))
   \<and> filter (\<lambda>ev. uses_tool ''dig'' ev \<or> uses_tool ''nmap'' ev)
         (log (snd (main env domain' (start w)))) = []"
proof
  show "fst (zone_transfer_nslookup env domain server s) = Inr None
      \<or> (\<exists>x xs. fst (zone_transfer_nslookup env domain server s) = Inr (Some (x # xs)))"
    using nslookup_outcome [of env domain server s]
    by (cases "zone_transfer_nslookup env domain server s") auto
next
  let ?f = "\<lambda>ev. uses_tool ''dig'' ev \<or> uses_tool ''nmap'' ev"
  have sub: "filter ?f evs = filter ?f (transfer_events evs)" for evs
  proof -
    have "?f ev \<Longrightarrow> is_transfer ev" for ev by (cases ev) auto
    then show ?thesis unfolding transfer_events_def filter_filter
      by (intro filter_cong) auto
  qed
  from main_events [of env domain' "start w"] obtain evs where
    evs: "transfer_events (log (snd (main env domain' (start w)))) = evs" and
    shape: "evs = [] \<or> (\<exists>a. probe_shape domain' a evs)"
    by (auto simp: start_def)
  from shape have "filter ?f evs = []"
    using probe_shape_tools by auto
  with evs sub [of "log (snd (main env domain' (start w)))"]
  show "filter ?f (log (snd (main env domain' (start w)))) = []" by simp
qed

text \<open>
  A run in which the library gives an empty list and \<^verbatim>\<open>nslookup\<close> prints two lines.
\<close>

theorem nslookup_conclusive_dig_nmap_unreachable_witness:
  "fst (zone_transfer_nslookup (example_env example_A (Inr []) two_lines org_reply)
          ''example.com'' ''192.0.2.1'' (start ())) = Inr (Some [PyStr ''a'', PyStr ''b''])
   \<and> filter (\<lambda>ev. uses_tool ''dig'' ev \<or> uses_tool ''nmap'' ev)
         (log (snd (main (example_env example_A (Inr []) two_lines org_reply)
                      ''example.com'' (start ())))) = []
   \<and> filter (uses_tool ''nslookup'')
         (log (snd (main (example_env example_A (Inr []) two_lines org_reply)
                      ''example.com'' (start ()))))
       = [Run [''nslookup'', ''-type=AXFR'', ''example.com'', ''192.0.2.1''],
          Returned ''nslookup'' ''192.0.2.1'' (Inr (Some [PyStr ''a'', PyStr ''b'']))]"
  using nslookup_conclusive_dig_nmap_unreachable
      [of "example_env example_A (Inr []) two_lines org_reply" "''example.com''" "''192.0.2.1''"
          "start ()" "''example.com''" "()"]
  by (simp add: run_defs)

subsection \<open>The transfer strategies\<close>

text \<open>
  Claim C3. For every transfer strategy, a failed invocation gives \<open>None\<close> and raises
  nothing. For the three tools a failed invocation is a process that ends with a non-zero
  exit code or has the tool's marker in its error stream (\<^verbatim>\<open>transfer failed\<close> for
  \<^verbatim>\<open>nslookup\<close>, \<^verbatim>\<open>Transfer failed\<close> for \<^verbatim>\<open>dig\<close> and \<^verbatim>\<open>nmap\<close>). The library
  strategy starts no process: it has neither exit code nor error stream, and its failure
  is one of the errors its \<^verbatim>\<open>except\<close> clauses name.
\<close>

theorem failed_invocation_is_definitive_failure:
  "(subprocess_run env [''nslookup'', ''-type=AXFR'', domain, server] (world s) = (Inr result, w)
      \<and> (returncode result \<noteq> 0 \<or> (\<exists>a b. stderr result = a @ ''transfer failed'' @ b))
      \<longrightarrow> fst (zone_transfer_nslookup env domain server s) = Inr None)
   \<and> (subprocess_run env [''dig'', ''@'' @ server, domain, ''AXFR''] (world s) = (Inr result, w)
      \<and> (returncode result \<noteq> 0 \<or> (\<exists>a b. stderr result = a @ ''Transfer failed'' @ b))
      \<longrightarrow> fst (zone_transfer_dig env domain server s) = Inr None)
   \<and> (subprocess_run env [''nmap'', ''--script'', ''dns-zone-transfer'', ''-p 53'', server] (world s)
        = (Inr result, w)
      \<and> (returncode result \<noteq> 0 \<or> (\<exists>a b. stderr result = a @ ''Transfer failed'' @ b))
      \<longrightarrow> fst (zone_transfer_nmap env domain server s) = Inr None)
   \<and> (dns_zone_from_xfr env server domain (world s) = (Inl e, w)
      \<and> isinstance e [TransferError, ConnectionResetError, FormError, BadResponse,
                       UnexpectedSource, DNSTimeout, ValueError]
      \<longrightarrow> fst (zone_transfer_dnspython env domain server s) = Inr None)"
  by (auto simp: zone_transfer_nslookup_def zone_transfer_dig_def zone_transfer_nmap_def
      zone_transfer_dnspython_def call_run_def call_xfr_def contains_iff isinstance_def)

text \<open>
  An exit code of 1 for \<^verbatim>\<open>nslookup\<close> and \<^verbatim>\<open>nmap\<close>, the marker with an exit code of 0
  for \<^verbatim>\<open>dig\<close>, a refused transfer for the library.
\<close>

theorem failed_invocation_is_definitive_failure_witness:
  "fst (zone_transfer_nslookup
          (example_env example_A refused (Inr \<lparr>returncode = 1, stdout = ''x'', stderr = []\<rparr>) org_reply)
          ''example.com'' ''192.0.2.1'' (start ())) = Inr None
   \<and> fst (zone_transfer_dig
          (example_env example_A refused
             (Inr \<lparr>returncode = 0, stdout = ''x'', stderr = ''; Transfer failed.''\<rparr>) org_reply)
          ''example.com'' ''192.0.2.1'' (start ())) = Inr None
   \<and> fst (zone_transfer_nmap
          (example_env example_A refused (Inr \<lparr>returncode = 1, stdout = ''x'', stderr = []\<rparr>) org_reply)
          ''example.com'' ''192.0.2.1'' (start ())) = Inr None
   \<and> fst (zone_transfer_dnspython
          (example_env example_A refused (Inr \<lparr>returncode = 1, stdout = ''x'', stderr = []\<rparr>) org_reply)
          ''example.com'' ''192.0.2.1'' (start ())) = Inr None"
proof -
  have marker: "\<exists>a b. ''; Transfer failed.'' = a @ ''Transfer failed'' @ b"
    by (rule exI [of _ "''; ''"], rule exI [of _ "''.''"]) simp
  show ?thesis
    using marker
      failed_invocation_is_definitive_failure
        [of "example_env example_A refused
               (Inr \<lparr>returncode = 1, stdout = ''x'', stderr = []\<rparr>) org_reply"
            "''example.com''" "''192.0.2.1''" "start ()"
            "\<lparr>returncode = 1, stdout = ''x'', stderr = []\<rparr>" "()"
            "Exc TransferError ''Zone transfer error: REFUSED''"]
      failed_invocation_is_definitive_failure
        [of "example_env example_A refused
               (Inr \<lparr>returncode = 0, stdout = ''x'', stderr = ''; Transfer failed.''\<rparr>) org_reply"
            "''example.com''" "''192.0.2.1''" "start ()"
            "\<lparr>returncode = 0, stdout = ''x'', stderr = ''; Transfer failed.''\<rparr>" "()"]
    by (simp add: example_env_def start_def refused_def isinstance_def)
qed

text \<open>
  Claim C4. The library strategy turns every transfer-level error (connection reset,
  transfer protocol error, malformed response, unexpected responder, timeout, value error)
  into \<open>None\<close>; the exception does not leave the function. This holds for an exception
  of one of the classes the two \<^verbatim>\<open>except\<close> clauses name and for one of any class
  that derives from them, whether the class table lists it or not.
\<close>

theorem dnspython_transfer_errors_become_None:
  "dns_zone_from_xfr env server domain (world s) = (Inl e, w)
     \<and> isinstance e [ConnectionResetError, TransferError, FormError, BadResponse,
                      UnexpectedSource, DNSTimeout, ValueError]
   \<longrightarrow> zone_transfer_dnspython env domain server s
         = (Inr None,
            \<lparr>world = w,
             log = log s @ [Xfr server domain, Print (''Error with dnspython: '' @ exc_msg e)]\<rparr>)"
  by (auto simp: zone_transfer_dnspython_def call_xfr_def isinstance_def py_print_def)

theorem dnspython_transfer_errors_become_None_witness:
  "zone_transfer_dnspython
     (example_env example_A (Inl (Exc ConnectionResetError ''Connection reset by peer''))
        no_tool org_reply)
     ''example.com'' ''192.0.2.1'' (start ())
   = (Inr None,
      \<lparr>world = (),
       log = [Xfr ''192.0.2.1'' ''example.com'',
              Print ''Error with dnspython: Connection reset by peer'']\<rparr>)
   \<and> zone_transfer_dnspython
       (example_env example_A
          (Inl (Exc (OtherException ''dns.message.ShortHeader'' [FormError])
                  ''The DNS packet passed to from_wire() is too short.''))
          no_tool org_reply)
       ''example.com'' ''192.0.2.1'' (start ())
     = (Inr None,
        \<lparr>world = (),
         log = [Xfr ''192.0.2.1'' ''example.com'',
                Print ''Error with dnspython: The DNS packet passed to from_wire() is too short.'']\<rparr>)"
  using dnspython_transfer_errors_become_None
      [of "example_env example_A (Inl (Exc ConnectionResetError ''Connection reset by peer''))
             no_tool org_reply"
          "''192.0.2.1''" "''example.com''" "start ()"
          "Exc ConnectionResetError ''Connection reset by peer''" "()"]
    dnspython_transfer_errors_become_None
      [of "example_env example_A
             (Inl (Exc (OtherException ''dns.message.ShortHeader'' [FormError])
                     ''The DNS packet passed to from_wire() is too short.''))
             no_tool org_reply"
          "''192.0.2.1''" "''example.com''" "start ()"
          "Exc (OtherException ''dns.message.ShortHeader'' [FormError])
             ''The DNS packet passed to from_wire() is too short.''" "()"]
  by (simp add: example_env_def start_def isinstance_def)

text \<open>
  Subclasses outside the table are matched through their bases: a malformed message
  (\<^verbatim>\<open>TrailingJunk\<close>) and a decoding error are caught, an end of file is not.
\<close>

lemma unlisted_subclasses_are_caught:
  "isinstance (Exc (OtherException ''dns.message.TrailingJunk'' [FormError]) m)
     [FormError, BadResponse, UnexpectedSource, DNSTimeout, ValueError]
   \<and> isinstance (Exc (OtherException ''UnicodeDecodeError''
                        [OtherException ''UnicodeError'' [ValueError]]) m)
     [FormError, BadResponse, UnexpectedSource, DNSTimeout, ValueError]
   \<and> \<not> isinstance (Exc (OtherException ''EOFError'' [Exception]) m)
     [TransferError, ConnectionResetError, FormError, BadResponse, UnexpectedSource,
      DNSTimeout, ValueError]"
  by (simp add: isinstance_def)

text \<open>
  An error the \<^verbatim>\<open>except\<close> clauses do not name, such as a refused connection, leaves the
  function.
\<close>

lemma zone_transfer_dnspython_uncaught:
  "fst (zone_transfer_dnspython
          (example_env example_A (Inl (Exc ConnectionRefusedError ''Connection refused''))
             no_tool org_reply)
          ''example.com'' ''192.0.2.1'' (start ()))
     = Inl (Exc ConnectionRefusedError ''Connection refused'')"
  by (simp add: run_defs)

subsection \<open>The ASN lookup\<close>

text \<open>
  Claim C5. For every address, \<open>fetch_asn_description\<close> returns exactly
  \<^verbatim>\<open>ASN description not available\<close> when the request raises, when the body is not JSON
  (\<^verbatim>\<open>json()\<close> raises), or when the document has no \<^verbatim>\<open>org\<close> field (a dictionary
  without the key, or a value that is no dictionary); otherwise it returns what the document
  holds under \<^verbatim>\<open>org\<close>. It has no way of raising: its result is a value.
\<close>

theorem fetch_asn_description_placeholder_or_org:
  "(requests_get env (''https://ipinfo.io/'' @ ip_address @ ''/json'') (world s) = (Inl e, w)
      \<longrightarrow> fst (fetch_asn_description env ip_address s) = PyStr ''ASN description not available'')
   \<and> (requests_get env (''https://ipinfo.io/'' @ ip_address @ ''/json'') (world s) = (Inr (Inl e), w)
      \<longrightarrow> fst (fetch_asn_description env ip_address s) = PyStr ''ASN description not available'')
   \<and> (requests_get env (''https://ipinfo.io/'' @ ip_address @ ''/json'') (world s)
          = (Inr (Inr (PyDict items)), w) \<and> map_of items ''org'' = None
      \<longrightarrow> fst (fetch_asn_description env ip_address s) = PyStr ''ASN description not available'')
   \<and> (requests_get env (''https://ipinfo.io/'' @ ip_address @ ''/json'') (world s)
          = (Inr (Inr data), w) \<and> (\<forall>kvs. data \<noteq> PyDict kvs)
      \<longrightarrow> fst (fetch_asn_description env ip_address s) = PyStr ''ASN description not available'')
   \<and> (requests_get env (''https://ipinfo.io/'' @ ip_address @ ''/json'') (world s)
          = (Inr (Inr (PyDict items)), w) \<and> map_of items ''org'' = Some org
      \<longrightarrow> fst (fetch_asn_description env ip_address s) = org)"
proof -
  have "(\<forall>kvs. data \<noteq> PyDict kvs) \<Longrightarrow>
          py_get data key dflt = Inl (Exc AttributeError ''object has no attribute get'')"
    for key dflt
    by (cases data) auto
  then show ?thesis
    by (auto simp: fetch_asn_description_def call_get_def)
qed

theorem fetch_asn_description_placeholder_or_org_witness:
  "fst (fetch_asn_description
          (example_env example_A refused no_tool (Inl (Exc RequestException ''Max retries exceeded'')))
          ''192.0.2.1'' (start ())) = PyStr ''ASN description not available''
   \<and> fst (fetch_asn_description
          (example_env example_A refused no_tool (Inr (Inl (Exc JSONDecodeError ''Expecting value''))))
          ''192.0.2.1'' (start ())) = PyStr ''ASN description not available''
   \<and> fst (fetch_asn_description
          (example_env example_A refused no_tool (Inr (Inr (PyDict [(''ip'', PyStr ''192.0.2.1'')]))))
          ''192.0.2.1'' (start ())) = PyStr ''ASN description not available''
   \<and> fst (fetch_asn_description
          (example_env example_A refused no_tool (Inr (Inr (PyList []))))
          ''192.0.2.1'' (start ())) = PyStr ''ASN description not available''
   \<and> fst (fetch_asn_description (example_env example_A refused no_tool org_reply)
          ''192.0.2.1'' (start ())) = PyStr ''AS64496 Example Net''"
  using fetch_asn_description_placeholder_or_org
      [of "example_env example_A refused no_tool (Inl (Exc RequestException ''Max retries exceeded''))"
          "''192.0.2.1''" "start ()" "Exc RequestException ''Max retries exceeded''" "()"]
    fetch_asn_description_placeholder_or_org
      [of "example_env example_A refused no_tool (Inr (Inl (Exc JSONDecodeError ''Expecting value'')))"
          "''192.0.2.1''" "start ()" "Exc JSONDecodeError ''Expecting value''" "()"]
    fetch_asn_description_placeholder_or_org
      [of "example_env example_A refused no_tool (Inr (Inr (PyDict [(''ip'', PyStr ''192.0.2.1'')])))"
          "''192.0.2.1''" "start ()" _ "()" "[(''ip'', PyStr ''192.0.2.1'')]"]
    fetch_asn_description_placeholder_or_org
      [of "example_env example_A refused no_tool (Inr (Inr (PyList [])))"
          "''192.0.2.1''" "start ()" _ "()" _ "PyList []"]
    fetch_asn_description_placeholder_or_org
      [of "example_env example_A refused no_tool org_reply"
          "''192.0.2.1''" "start ()" _ "()"
          "[(''ip'', PyStr ''192.0.2.1''), (''org'', PyStr ''AS64496 Example Net'')]" _
          "PyStr ''AS64496 Example Net''"]
  by (simp add: example_env_def start_def org_reply_def)

subsection \<open>The report\<close>





text \<open>
  Claim C7. When every NS server of the domain fails address resolution (every entry of
  \<open>ns_servers\<close> is \<open>None\<close>), no transfer strategy is invoked, and the result table that is
  printed is the fixed failure row.
\<close>

theorem no_resolved_server_no_transfer:
  assumes "call_resolve_NS env domain (start w) = (Inr targets, s1)"
      and "resolve_all env targets s1 = (Inr servers, s2)"
      and "list_all (\<lambda>a. a = None) servers"
  shows "\<exists>r s'. main env domain (start w) = (Inr r, s')
           \<and> transfer_events (log s') = []
           \<and> ns_servers r = servers
           \<and> \<not> successful r
           \<and> result_table r = \<lparr>field_names = [''No threats were found. Please try again.''],
                                 rows = [[PyStr ''Transfer failed.'']]\<rparr>
           \<and> log s' = log s2 @
                [Print ''Oh no! Unfortunately,'', PrintTable (result_table r),
                 Print (CHR 0x0A # ''DNS INFO:''),
                 PrintTable \<lparr>field_names = [''NS Record'', ''ASN Description''], rows = []\<rparr>]"
proof -
  have "transfer_events (log s2) = []"
    using call_resolve_NS_events [OF assms(1)] resolve_all_events [OF assms(2)]
    by (simp add: start_def)
  then show ?thesis
    using assms
    by (simp add: main_def probe_servers_all_None report_def asn_rows_all_None
        build_result_table_def Let_def)
qed

theorem no_resolved_server_no_transfer_witness:
  "main (example_env unresolvable one_record_zone two_lines org_reply) ''example.com'' (start ())
     = (Inr \<lparr>ns_servers = [None, None, None], successful = False, all_records = [],
              general_info_table = \<lparr>field_names = [''NS Record'', ''ASN Description''], rows = []\<rparr>,
              result_table = \<lparr>field_names = [''No threats were found. Please try again.''],
                              rows = [[PyStr ''Transfer failed.'']]\<rparr>\<rparr>,
        \<lparr>world = (),
         log = [Resolve ''example.com'' ''NS'', Resolve ''ns1.example.com.'' ''A'',
                Resolve ''ns2.example.com.'' ''A'', Resolve ''ns3.example.com.'' ''A'',
                Print ''Oh no! Unfortunately,'',
                PrintTable \<lparr>field_names = [''No threats were found. Please try again.''],
                            rows = [[PyStr ''Transfer failed.'']]\<rparr>,
                Print (CHR 0x0A # ''DNS INFO:''),
                PrintTable \<lparr>field_names = [''NS Record'', ''ASN Description''], rows = []\<rparr>]\<rparr>)"
proof -
  let ?env = "example_env unresolvable one_record_zone two_lines org_reply"
  let ?s1 = "\<lparr>world = (), log = [Resolve ''example.com'' ''NS'']\<rparr>"
  let ?s2 = "\<lparr>world = (),
              log = [Resolve ''example.com'' ''NS'', Resolve ''ns1.example.com.'' ''A'',
                     Resolve ''ns2.example.com.'' ''A'', Resolve ''ns3.example.com.'' ''A'']\<rparr>"
  have a: "call_resolve_NS ?env ''example.com'' (start ())
             = (Inr [''ns1.example.com.'', ''ns2.example.com.'', ''ns3.example.com.''], ?s1)"
    by (simp add: run_defs)
  have b: "resolve_all ?env [''ns1.example.com.'', ''ns2.example.com.'', ''ns3.example.com.''] ?s1
             = (Inr [None, None, None], ?s2)"
    by (simp add: run_defs)
  have c: "list_all (\<lambda>a. a = None) [None, None, None :: string option]" by simp
  from no_resolved_server_no_transfer [OF a b c] show ?thesis by (simp add: run_defs)
qed

text \<open>
  Claim C8. When the library transfer succeeds and returns exactly the record list
  \<^verbatim>\<open>[(example.com., A, 1.2.3.4)]\<close>, the success flag is true and the result
  table has exactly one row, whose cell is that triple. (The library transfer \<open>main\<close> makes
  is the one on the first resolved server.)
\<close>

theorem library_transfer_of_one_record:
  assumes "call_resolve_NS env domain s = (Inr targets, s1)"
      and "resolve_all env targets s1 = (Inr servers, s2)"
      and "first_resolved servers = Some server"
      and "fst (zone_transfer_dnspython env domain server
                  (py_print (''Checking NS server: '' @ server) s2))
             = Inr (Some [PyTuple [PyStr ''example.com.'', PyStr ''A'', PyStr ''1.2.3.4'']])"
  shows "\<exists>r s'. main env domain s = (Inr r, s')
           \<and> successful r
           \<and> all_records r = [PyTuple [PyStr ''example.com.'', PyStr ''A'', PyStr ''1.2.3.4'']]
           \<and> result_table r =
               \<lparr>field_names = [''Threat successfully found''],
                rows = [[PyTuple [PyStr ''example.com.'', PyStr ''A'', PyStr ''1.2.3.4'']]]\<rparr>
           \<and> PrintTable (result_table r) \<in> set (log s')"
proof -
  let ?rec = "PyTuple [PyStr ''example.com.'', PyStr ''A'', PyStr ''1.2.3.4'']"
  obtain s3 where z:
    "zone_transfer_dnspython env domain server (py_print (''Checking NS server: '' @ server) s2)
       = (Inr (Some [?rec]), s3)"
    using assms(4)
    by (cases "zone_transfer_dnspython env domain server
                 (py_print (''Checking NS server: '' @ server) s2)") auto
  note p = probe_servers_dnspython_data [OF assms(3) z, of "([], False)"]
  obtain info s4 where a:
    "asn_rows env servers \<lparr>field_names = [''NS Record'', ''ASN Description''], rows = []\<rparr>
       (s3\<lparr>log := log s3 @ [Returned ''dnspython'' server (Inr (Some [?rec]))]\<rparr>) = (info, s4)"
    by (cases "asn_rows env servers \<lparr>field_names = [''NS Record'', ''ASN Description''], rows = []\<rparr>
       (s3\<lparr>log := log s3 @ [Returned ''dnspython'' server (Inr (Some [?rec]))]\<rparr>)")
  show ?thesis
    using assms(1,2) p a
    by (simp add: main_def report_def build_result_table_def Let_def)
qed

theorem library_transfer_of_one_record_witness:
  "main (example_env example_A one_record_zone no_tool org_reply) ''example.com'' (start ())
     = (Inr \<lparr>ns_servers = [Some ''192.0.2.1'', Some ''192.0.2.2'', Some ''192.0.2.3''],
              successful = True,
              all_records = [PyTuple [PyStr ''example.com.'', PyStr ''A'', PyStr ''1.2.3.4'']],
              general_info_table =
                \<lparr>field_names = [''NS Record'', ''ASN Description''],
                 rows = [[PyStr ''192.0.2.1'', PyStr ''AS64496 Example Net''],
                         [PyStr ''192.0.2.2'', PyStr ''AS64496 Example Net''],
                         [PyStr ''192.0.2.3'', PyStr ''AS64496 Example Net'']]\<rparr>,
              result_table =
                \<lparr>field_names = [''Threat successfully found''],
                 rows = [[PyTuple [PyStr ''example.com.'', PyStr ''A'', PyStr ''1.2.3.4'']]]\<rparr>\<rparr>,
        \<lparr>world = (),
         log = [Resolve ''example.com'' ''NS'', Resolve ''ns1.example.com.'' ''A'',
                Resolve ''ns2.example.com.'' ''A'', Resolve ''ns3.example.com.'' ''A'',
                Print ''Checking NS server: 192.0.2.1'',
                Xfr ''192.0.2.1'' ''example.com'',
                Returned ''dnspython'' ''192.0.2.1''
                  (Inr (Some [PyTuple [PyStr ''example.com.'', PyStr ''A'', PyStr ''1.2.3.4'']])),
                HttpGet ''https://ipinfo.io/192.0.2.1/json'',
                HttpGet ''https://ipinfo.io/192.0.2.2/json'',
                HttpGet ''https://ipinfo.io/192.0.2.3/json'',
                Print ''Zone transfer successful for domain example.com'',
                PrintTable
                  \<lparr>field_names = [''Threat successfully found''],
                   rows = [[PyTuple [PyStr ''example.com.'', PyStr ''A'', PyStr ''1.2.3.4'']]]\<rparr>,
                Print (CHR 0x0A # ''DNS INFO:''),
                PrintTable
                  \<lparr>field_names = [''NS Record'', ''ASN Description''],
                   rows = [[PyStr ''192.0.2.1'', PyStr ''AS64496 Example Net''],
                           [PyStr ''192.0.2.2'', PyStr ''AS64496 Example Net''],
                           [PyStr ''192.0.2.3'', PyStr ''AS64496 Example Net'']]\<rparr>]\<rparr>)"
proof -
  let ?env = "example_env example_A one_record_zone no_tool org_reply"
  let ?s1 = "\<lparr>world = (), log = [Resolve ''example.com'' ''NS'']\<rparr>"
  let ?s2 = "\<lparr>world = (),
              log = [Resolve ''example.com'' ''NS'', Resolve ''ns1.example.com.'' ''A'',
                     Resolve ''ns2.example.com.'' ''A'', Resolve ''ns3.example.com.'' ''A'']\<rparr>"
  have a: "call_resolve_NS ?env ''example.com'' (start ())
             = (Inr [''ns1.example.com.'', ''ns2.example.com.'', ''ns3.example.com.''], ?s1)"
    by (simp add: run_defs)
  have b: "resolve_all ?env [''ns1.example.com.'', ''ns2.example.com.'', ''ns3.example.com.''] ?s1
             = (Inr [Some ''192.0.2.1'', Some ''192.0.2.2'', Some ''192.0.2.3''], ?s2)"
    by (simp add: run_defs)
  have c: "first_resolved [Some ''192.0.2.1'', Some ''192.0.2.2'', Some ''192.0.2.3'']
             = Some ''192.0.2.1''"
    by simp
  have d: "fst (zone_transfer_dnspython ?env ''example.com'' ''192.0.2.1''
                  (py_print (''Checking NS server: '' @ ''192.0.2.1'') ?s2))
             = Inr (Some [PyTuple [PyStr ''example.com.'', PyStr ''A'', PyStr ''1.2.3.4'']])"
    by (simp add: run_defs)
  from library_transfer_of_one_record [OF a b c d] show ?thesis by (simp add: run_defs)
qed

subsection \<open>Name resolution\<close>

text \<open>
  Claim C9. \<open>resolve_ns_to_ip\<close> looks up the addresses of the name and returns the first
  one; when the name has no such record (\<^verbatim>\<open>NoAnswer\<close>), does not exist
  (\<^verbatim>\<open>NXDOMAIN\<close>) or the lookup times out (\<^verbatim>\<open>Timeout\<close>), it returns \<open>None\<close> and
  raises nothing.
\<close>

theorem resolve_ns_to_ip_first_or_absent:
  "(dns_resolver_resolve_A env ns_name (world s) = (Inr (a # others), w)
      \<longrightarrow> fst (resolve_ns_to_ip env ns_name s) = Inr (Some (str_A a)))
   \<and> (dns_resolver_resolve_A env ns_name (world s) = (Inl e, w)
        \<and> isinstance e [NoAnswer, NXDOMAIN, DNSTimeout]
      \<longrightarrow> fst (resolve_ns_to_ip env ns_name s) = Inr None)"
  by (auto simp: resolve_ns_to_ip_def call_resolve_A_def isinstance_def)

theorem resolve_ns_to_ip_first_or_absent_witness:
  "fst (resolve_ns_to_ip (example_env example_A refused no_tool org_reply)
          ''ns2.example.com.'' (start ())) = Inr (Some ''192.0.2.2'')
   \<and> fst (resolve_ns_to_ip (example_env example_A refused no_tool org_reply)
            ''ns9.example.com.'' (start ())) = Inr None"
  using resolve_ns_to_ip_first_or_absent
      [of "example_env example_A refused no_tool org_reply" "''ns2.example.com.''" "start ()"
          "(192, 0, 2, 2)" "[(192, 0, 2, 20)]" "()"]
    resolve_ns_to_ip_first_or_absent
      [of "example_env example_A refused no_tool org_reply" "''ns9.example.com.''" "start ()"
          _ _ "()" "Exc NXDOMAIN ''The DNS query name does not exist''"]
  by (simp add: example_env_def example_A_def start_def isinstance_def decimal.simps)

text \<open>
  Claim C10. The NS lookup for the domain at the top of \<open>main\<close> is not guarded: an error
  it raises leaves \<open>main\<close>, and the run ends there, with nothing resolved, probed or
  printed after the lookup.
\<close>

theorem ns_lookup_error_aborts_main:
  assumes "dns_resolver_resolve_NS env domain (world s) = (Inl e, w)"
  shows "main env domain s = (Inl e, \<lparr>world = w, log = log s @ [Resolve domain ''NS'']\<rparr>)"
  using assms by (simp add: main_def call_resolve_NS_def)

theorem ns_lookup_error_aborts_main_witness:
  "main no_ns_env ''example.com'' (start ())
     = (Inl (Exc NoNameservers ''All nameservers failed to answer the query''),
        \<lparr>world = (), log = [Resolve ''example.com'' ''NS'']\<rparr>)"
  using ns_lookup_error_aborts_main
      [of no_ns_env "''example.com''" "start ()"
          "Exc NoNameservers ''All nameservers failed to answer the query''" "()"]
  by (simp add: run_defs)

text \<open>\<open>fetch_ns_records\<close>, which \<open>main\<close> does not use, would have recovered.\<close>

lemma fetch_ns_records_recovers:
  "fst (fetch_ns_records no_ns_env ''example.com'' (start ())) = []"
  by (simp add: fetch_ns_records_def run_defs)

end
